theory Spec2Isabelle
  imports Main "HOL-Library.Word"
begin

unbundle bit_operations_syntax

section \<open>common.h: address types and addresses\<close>

type_synonym byte = "8 word"

text \<open>
  \<^verbatim>\<open>enum class AddressType : uint8_t { kIPv4 = 0x1, kDomainName = 0x3, kIPv6 = 0x4 }\<close>.
  A scoped enumeration over \<^verbatim>\<open>uint8_t\<close> holds any byte (the program itself
  stores \<^verbatim>\<open>static_cast<AddressType>(0xff)\<close>), so the type is the byte.
\<close>

type_synonym AddressType = byte

definition kIPv4 :: AddressType where
  "kIPv4 = 0x1"

definition kDomainName :: AddressType where
  "kDomainName = 0x3"

definition kIPv6 :: AddressType where
  "kIPv6 = 0x4"

text \<open>\<^verbatim>\<open>struct Address\<close>: the host is a \<^verbatim>\<open>std::string\<close>, a sequence of bytes.\<close>

record Address =
  type :: AddressType
  host :: "byte list"
  port :: "16 word"

text \<open>
  The default member initialisers: \<^verbatim>\<open>type = AddressType::kIPv4\<close>,
  \<^verbatim>\<open>host{0, 0, 0, 0}\<close> (four NUL characters), \<^verbatim>\<open>port = 0\<close>.
\<close>

definition Address_default :: Address where
  "Address_default = \<lparr>type = kIPv4, host = [0, 0, 0, 0], port = 0\<rparr>"

text \<open>
  The endpoint handed to \<^verbatim>\<open>Address::FromAsioEndpoint\<close>. The function is a template
  over the endpoint type and branches on \<^verbatim>\<open>is_v4()\<close>, \<^verbatim>\<open>is_v6()\<close> and neither (the
  three constructors); an
  IPv4 address is its 32 bits, an IPv6 address its 128 bits, and \<^verbatim>\<open>to_bytes()\<close> gives them
  in network order as an array of 4 resp. 16 bytes.
\<close>

datatype asio_address = address_v4 "32 word" | address_v6 "128 word" | address_other

record asio_endpoint =
  endpoint_address :: asio_address
  endpoint_port :: "16 word"

definition to_bytes_v4 :: "32 word \<Rightarrow> byte list" where
  "to_bytes_v4 w = map (\<lambda>i. ucast (drop_bit (8 * (3 - i)) w)) [0..<4]"

definition to_bytes_v6 :: "128 word \<Rightarrow> byte list" where
  "to_bytes_v6 w = map (\<lambda>i. ucast (drop_bit (8 * (15 - i)) w)) [0..<16]"

definition FromAsioEndpoint :: "asio_endpoint \<Rightarrow> Address" where
  "FromAsioEndpoint endpoint =
     (let address = Address_default in
      case endpoint_address endpoint of
        address_v4 w \<Rightarrow>
          address\<lparr>type := kIPv4, host := to_bytes_v4 w, port := endpoint_port endpoint\<rparr>
      | address_v6 w \<Rightarrow>
          address\<lparr>type := kIPv6, host := to_bytes_v6 w, port := endpoint_port endpoint\<rparr>
      | address_other \<Rightarrow> address\<lparr>type := 0xff\<rparr>)"

text \<open>
  The invariant of the data model: the length of the host matches the type. An address
  of any other type value is not constrained.
\<close>

definition host_matches_type :: "Address \<Rightarrow> bool" where
  "host_matches_type a =
     ((type a = kIPv4 \<longrightarrow> length (host a) = 4) \<and>
      (type a = kIPv6 \<longrightarrow> length (host a) = 16) \<and>
      (type a = kDomainName \<longrightarrow> 1 \<le> length (host a) \<and> length (host a) \<le> 255))"

section \<open>base.h: error codes, transports and packets\<close>

text \<open>
  \<^verbatim>\<open>typedef boost::system::error_code ec_type\<close>: an integer value in a category.
  \<^verbatim>\<open>ec_type()\<close> is value 0 in the system category, and \<^verbatim>\<open>if (ec)\<close> tests the value
  against 0.
\<close>

datatype error_category = system_category | misc_category | socks_category

record ec_type =
  ec_value :: int
  ec_category :: error_category

definition no_error :: ec_type where
  "no_error = \<lparr>ec_value = 0, ec_category = system_category\<rparr>"

definition is_error :: "ec_type \<Rightarrow> bool" where
  "is_error ec = (ec_value ec \<noteq> 0)"

text \<open>The Boost.Asio error conditions the model names.\<close>

definition eof :: ec_type where
  "eof = \<lparr>ec_value = 2, ec_category = misc_category\<rparr>"

definition bad_descriptor :: ec_type where
  "bad_descriptor = \<lparr>ec_value = 9, ec_category = system_category\<rparr>"

text \<open>
  \<^verbatim>\<open>class TransportBase\<close> is abstract: its four pure virtual functions are the fields of
  a record of functions over the state \<open>'t\<close> of the transport object. The program is
  callback driven on one reactor thread, with one operation of a handshake in flight at
  a time. An asynchronous operation is modelled by its completion: the arguments its
  callback is invoked with, and the state of the transport object at that moment.
  \<^item> \<open>StartRead n allow_short t\<close> completes with an error code and the bytes it placed
    at the front of the caller's buffer of \<open>n\<close> bytes;
  \<^item> \<open>StartWrite bs t\<close> completes with an error code and the number of bytes written;
  \<^item> \<open>StartClose t\<close> completes with an error code.
\<close>

record 't TransportBase =
  GetLocalAddress :: "'t \<Rightarrow> Address"
  StartRead :: "nat \<Rightarrow> bool \<Rightarrow> 't \<Rightarrow> (ec_type \<times> byte list) \<times> 't"
  StartWrite :: "byte list \<Rightarrow> 't \<Rightarrow> (ec_type \<times> nat) \<times> 't"
  StartClose :: "'t \<Rightarrow> ec_type \<times> 't"

text \<open>
  \<^verbatim>\<open>virtual void StartClose() { StartClose([](const ec_type&) {}); }\<close>: the result of
  closing is dropped.
\<close>

definition StartClose_ignore :: "'t TransportBase \<Rightarrow> 't \<Rightarrow> 't" where
  "StartClose_ignore tb transport = snd (StartClose tb transport)"

text \<open>The caller's buffer after a read wrote \<open>received\<close> at its front.\<close>

definition fill_buffer :: "byte list \<Rightarrow> byte list \<Rightarrow> byte list" where
  "fill_buffer buf received =
     take (length buf) (received @ drop (length received) buf)"

text \<open>
  Modelled from the spec: \<^verbatim>\<open>PacketBase::StartWriteTo\<close> is defined in base.cc, which is
  not among the sources. A packet is "writable via asynchronously write to transport",
  and the declaration in base.h documents it: "The default implementation writes the
  bytes returned by ToString()". The argument is the packet's \<^verbatim>\<open>ToString()\<close>.
\<close>

definition StartWriteTo :: "'t TransportBase \<Rightarrow> byte list \<Rightarrow> 't \<Rightarrow> (ec_type \<times> nat) \<times> 't" where
  "StartWriteTo tb packet_bytes transport = StartWrite tb packet_bytes transport"

text \<open>
  \<^verbatim>\<open>PacketWithSize<PacketType, N>::StartCreateFrom\<close>. The template parameters are the
  arguments \<open>packet0\<close> (the default-constructed \<^verbatim>\<open>PacketType packet;\<close>), the virtual
  \<^verbatim>\<open>FromBytes\<close> and \<open>N\<close>. The buffer \<^verbatim>\<open>std::array<char, N>\<close> is value-initialised,
  the read is an exact one (\<^verbatim>\<open>allow_short_read\<close> defaults to false).
\<close>

definition PacketWithSize_StartCreateFrom ::
  "'p \<Rightarrow> (byte list \<Rightarrow> 'p \<Rightarrow> 'p) \<Rightarrow> nat \<Rightarrow> 't TransportBase \<Rightarrow> 't \<Rightarrow> (ec_type \<times> 'p) \<times> 't" where
  "PacketWithSize_StartCreateFrom packet0 FromBytes N tb transport =
     (let data = replicate N 0;
          ((error_code, received), transport') = StartRead tb N False transport;
          data = fill_buffer data received;
          packet = (if \<not> is_error error_code then FromBytes data packet0 else packet0)
      in ((error_code, packet), transport'))"

text \<open>
  \<^verbatim>\<open>PacketWithHeader<Header, Body>\<close> and its \<^verbatim>\<open>StartCreateFrom\<close>. The template
  parameters are the arguments: the default-constructed header and body, and the two
  static \<^verbatim>\<open>StartCreateFrom\<close> functions.
\<close>

record ('h, 'b) PacketWithHeader =
  header :: 'h
  body :: 'b

definition PacketWithHeader_StartCreateFrom ::
  "'h \<Rightarrow> 'b \<Rightarrow> ('t \<Rightarrow> (ec_type \<times> 'h) \<times> 't) \<Rightarrow> ('t \<Rightarrow> (ec_type \<times> 'b) \<times> 't) \<Rightarrow> 't
     \<Rightarrow> (ec_type \<times> ('h, 'b) PacketWithHeader) \<times> 't" where
  "PacketWithHeader_StartCreateFrom header0 body0 Header_StartCreateFrom Body_StartCreateFrom transport =
     (let ((ec, header), transport1) = Header_StartCreateFrom transport in
      if is_error ec then ((ec, \<lparr>header = header0, body = body0\<rparr>), transport1)
      else
        let ((ec', body), transport2) = Body_StartCreateFrom transport1;
            packet = \<lparr>header = header0, body = body0\<rparr>;
            packet = (if \<not> is_error ec' then packet\<lparr>header := header, body := body\<rparr> else packet)
        in ((ec', packet), transport2))"

text \<open>\<^verbatim>\<open>PacketWithHeader::ToString\<close>: the header's bytes, then the body's.\<close>

definition PacketWithHeader_ToString ::
  "('h \<Rightarrow> byte list) \<Rightarrow> ('b \<Rightarrow> byte list) \<Rightarrow> ('h, 'b) PacketWithHeader \<Rightarrow> byte list" where
  "PacketWithHeader_ToString Header_ToString Body_ToString packet =
     Header_ToString (header packet) @ Body_ToString (body packet)"

text \<open>\<^verbatim>\<open>PacketWithHeader::Validate\<close>: both parts validate.\<close>

definition PacketWithHeader_Validate ::
  "('h \<Rightarrow> bool) \<Rightarrow> ('b \<Rightarrow> bool) \<Rightarrow> ('h, 'b) PacketWithHeader \<Rightarrow> bool" where
  "PacketWithHeader_Validate Header_Validate Body_Validate packet =
     (Header_Validate (header packet) \<and> Body_Validate (body packet))"

section \<open>The SOCKS5 packets\<close>

text \<open>
  Modelled from the spec: the packet classes and the enumerations \<^verbatim>\<open>AuthMethod\<close>,
  \<^verbatim>\<open>Command\<close> and \<^verbatim>\<open>ResponseCode\<close> are declared in socks.h and defined in socks.cc;
  neither is among the sources, which use the members \<^verbatim>\<open>methods\<close>, \<^verbatim>\<open>method\<close>,
  \<^verbatim>\<open>header.command\<close>, \<^verbatim>\<open>header.response_code\<close> and \<^verbatim>\<open>body\<close>. The enumerations
  carry the wire bytes: NoAuth=0x00, NoAcceptable=0xFF; Connect=0x01; Success=0x00,
  GeneralFailure=0x01, AddressTypeNotSupported=0x08.
\<close>

type_synonym AuthMethod = byte

definition kNoAuth :: AuthMethod where
  "kNoAuth = 0x00"

definition kNoAcceptable :: AuthMethod where
  "kNoAcceptable = 0xFF"

type_synonym Command = byte

definition kConnect :: Command where
  "kConnect = 0x01"

type_synonym ResponseCode = byte

definition kSuccess :: ResponseCode where
  "kSuccess = 0x00"

definition kGeneralFailure :: ResponseCode where
  "kGeneralFailure = 0x01"

definition kAddressTypeNotSupported :: ResponseCode where
  "kAddressTypeNotSupported = 0x08"

text \<open>
  Modelled from the spec: \<^verbatim>\<open>error::make_error_code(ResponseCode)\<close> is declared in
  socks.h. "Upstream SOCKS returned code R" is reported as "R (pass-through)": the
  error code carries the response code as its value, in the category of SOCKS errors.
\<close>

definition make_error_code :: "ResponseCode \<Rightarrow> ec_type" where
  "make_error_code code = \<lparr>ec_value = uint code, ec_category = socks_category\<rparr>"

text \<open>
  Modelled from the spec: the greeting \<^verbatim>\<open>AuthMethodList\<close> of socks.h,
  \<^verbatim>\<open>[VER=0x05][NMETHODS=n][METHODS(n)]\<close>.
\<close>

record AuthMethodList =
  list_version :: byte
  methods :: "AuthMethod list"

definition AuthMethodList_default :: AuthMethodList where
  "AuthMethodList_default = \<lparr>list_version = 0x05, methods = []\<rparr>"

definition AuthMethodList_ToString :: "AuthMethodList \<Rightarrow> byte list" where
  "AuthMethodList_ToString packet =
     [list_version packet, of_nat (length (methods packet))] @ methods packet"

text \<open>
  Modelled from the spec: \<^verbatim>\<open>AuthMethodSelectPacket\<close> of socks.h, the fixed-size packet
  \<^verbatim>\<open>[VER=0x05][METHOD(1)]\<close>.
\<close>

record AuthMethodSelectPacket =
  select_version :: byte
  "method" :: AuthMethod

definition AuthMethodSelectPacket_default :: AuthMethodSelectPacket where
  "AuthMethodSelectPacket_default = \<lparr>select_version = 0x05, method = kNoAuth\<rparr>"

definition AuthMethodSelectPacket_FromBytes ::
  "byte list \<Rightarrow> AuthMethodSelectPacket \<Rightarrow> AuthMethodSelectPacket" where
  "AuthMethodSelectPacket_FromBytes data packet =
     packet\<lparr>select_version := data ! 0, method := data ! 1\<rparr>"

definition AuthMethodSelectPacket_StartCreateFrom ::
  "'t TransportBase \<Rightarrow> 't \<Rightarrow> (ec_type \<times> AuthMethodSelectPacket) \<times> 't" where
  "AuthMethodSelectPacket_StartCreateFrom =
     PacketWithSize_StartCreateFrom AuthMethodSelectPacket_default AuthMethodSelectPacket_FromBytes 2"

text \<open>
  Modelled from the spec: \<^verbatim>\<open>RequestHeader\<close> of socks.h, the packet
  \<^verbatim>\<open>[VER=0x05][CMD(1)][RSV=0x00]\<close>; "Validation rejects VER\<noteq>0x05".
\<close>

record RequestHeader =
  request_version :: byte
  command :: Command
  request_reserved :: byte

definition RequestHeader_default :: RequestHeader where
  "RequestHeader_default = \<lparr>request_version = 0x05, command = kConnect, request_reserved = 0x00\<rparr>"

definition RequestHeader_ToBytes :: "RequestHeader \<Rightarrow> byte list" where
  "RequestHeader_ToBytes h = [request_version h, command h, request_reserved h]"

definition RequestHeader_Validate :: "RequestHeader \<Rightarrow> bool" where
  "RequestHeader_Validate h = (request_version h = 0x05)"

text \<open>
  Modelled from the spec: the error of a packet that does not validate. The spec names
  the kind ("Protocol: unsupported version, ...") and maps every cause it does not list
  to GeneralFailure.
\<close>

definition protocol_error :: ec_type where
  "protocol_error = make_error_code kGeneralFailure"

text \<open>
  Modelled from the spec: \<^verbatim>\<open>RequestHeader::StartCreateFrom\<close> of socks.cc. "Reading any
  packet whose first byte is not 0x05 yields a protocol error and leaves no bytes to be
  consumed beyond the first (no multi-byte lookahead)": the version is read alone, and
  the two bytes after it only behind a version that validates. A header rejected for
  its version is delivered with the version that was read.
\<close>

definition RequestHeader_StartCreateFrom ::
  "'t TransportBase \<Rightarrow> 't \<Rightarrow> (ec_type \<times> RequestHeader) \<times> 't" where
  "RequestHeader_StartCreateFrom tb transport =
     (let ((ec, received), transport1) = StartRead tb 1 False transport;
          ver = fill_buffer [0] received ! 0
      in if is_error ec then ((ec, RequestHeader_default), transport1)
         else if ver \<noteq> 0x05 then
           ((protocol_error, RequestHeader_default\<lparr>request_version := ver\<rparr>), transport1)
         else
           (let ((ec', received'), transport2) = StartRead tb 2 False transport1;
                rest = fill_buffer [0, 0] received'
            in if is_error ec' then ((ec', RequestHeader_default), transport2)
               else ((ec',
                      \<lparr>request_version = ver, command = rest ! 0, request_reserved = rest ! 1\<rparr>),
                     transport2)))"

text \<open>
  Modelled from the spec: \<^verbatim>\<open>ResponseHeader\<close> of socks.h, the fixed-size packet
  \<^verbatim>\<open>[VER=0x05][REP(1)][RSV=0x00]\<close>.
\<close>

record ResponseHeader =
  response_version :: byte
  response_code :: ResponseCode
  response_reserved :: byte

definition ResponseHeader_default :: ResponseHeader where
  "ResponseHeader_default =
     \<lparr>response_version = 0x05, response_code = kSuccess, response_reserved = 0x00\<rparr>"

definition ResponseHeader_FromBytes :: "byte list \<Rightarrow> ResponseHeader \<Rightarrow> ResponseHeader" where
  "ResponseHeader_FromBytes data h =
     h\<lparr>response_version := data ! 0, response_code := data ! 1, response_reserved := data ! 2\<rparr>"

definition ResponseHeader_StartCreateFrom ::
  "'t TransportBase \<Rightarrow> 't \<Rightarrow> (ec_type \<times> ResponseHeader) \<times> 't" where
  "ResponseHeader_StartCreateFrom =
     PacketWithSize_StartCreateFrom ResponseHeader_default ResponseHeader_FromBytes 3"

text \<open>
  Modelled from the spec: the address as a packet (socks.h), on the wire
  \<^verbatim>\<open>[ATYP(1)] [host(variable)] [port(2, big-endian)]\<close>, a domain name behind one byte
  of length.
\<close>

definition Address_ToString :: "Address \<Rightarrow> byte list" where
  "Address_ToString a =
     [type a] @
     (if type a = kDomainName then [of_nat (length (host a))] @ host a else host a) @
     [ucast (drop_bit 8 (Address.port a)), ucast (Address.port a)]"

text \<open>
  Modelled from the spec: the second phase of reading an address, \<open>n\<close> bytes of host and
  "then read 2 bytes of port".
\<close>

definition Address_read_host_port ::
  "'t TransportBase \<Rightarrow> AddressType \<Rightarrow> nat \<Rightarrow> 't \<Rightarrow> (ec_type \<times> Address) \<times> 't" where
  "Address_read_host_port tb atyp n transport =
     (let ((ec, received), transport1) = StartRead tb n False transport;
          host_bytes = fill_buffer (replicate n 0) received
      in if is_error ec then ((ec, Address_default), transport1)
         else
           let ((ec', received'), transport2) = StartRead tb 2 False transport1;
               port_bytes = fill_buffer [0, 0] received'
           in if is_error ec' then ((ec', Address_default), transport2)
              else ((ec',
                     \<lparr>type = atyp, host = host_bytes,
                      port = push_bit 8 (ucast (port_bytes ! 0)) OR ucast (port_bytes ! 1)\<rparr>),
                    transport2))"

text \<open>
  Modelled from the spec: \<^verbatim>\<open>Address::StartCreateFrom\<close> of socks.cc. "Parsing is two-phase
  async: read ATYP, then based on its value read either a fixed number of bytes or read
  1 length byte then L bytes, then read 2 bytes of port. Any unknown ATYP fails with
  AddressTypeNotSupported. Domain length 0 fails with GeneralFailure."
\<close>

definition Address_StartCreateFrom :: "'t TransportBase \<Rightarrow> 't \<Rightarrow> (ec_type \<times> Address) \<times> 't" where
  "Address_StartCreateFrom tb transport =
     (let ((ec, received), transport1) = StartRead tb 1 False transport;
          atyp = fill_buffer [0] received ! 0
      in if is_error ec then ((ec, Address_default), transport1)
         else if atyp = kIPv4 then Address_read_host_port tb atyp 4 transport1
         else if atyp = kIPv6 then Address_read_host_port tb atyp 16 transport1
         else if atyp = kDomainName then
           (let ((ec', received'), transport2) = StartRead tb 1 False transport1;
                len = unat (fill_buffer [0] received' ! 0)
            in if is_error ec' then ((ec', Address_default), transport2)
               else if len = 0 then ((make_error_code kGeneralFailure, Address_default), transport2)
               else Address_read_host_port tb atyp len transport2)
         else ((make_error_code kAddressTypeNotSupported, Address_default), transport1))"

text \<open>
  Modelled from the spec: the two instances of \<^verbatim>\<open>PacketWithHeader\<close> that socks.h names.
  "RequestPacket = RequestHeader followed by Address (target). ResponsePacket =
  ResponseHeader followed by Address (bound address)."
\<close>

type_synonym RequestPacket = "(RequestHeader, Address) PacketWithHeader"

type_synonym ResponsePacket = "(ResponseHeader, Address) PacketWithHeader"

definition RequestPacket_default :: RequestPacket where
  "RequestPacket_default = \<lparr>header = RequestHeader_default, body = Address_default\<rparr>"

definition ResponsePacket_default :: ResponsePacket where
  "ResponsePacket_default = \<lparr>header = ResponseHeader_default, body = Address_default\<rparr>"

definition RequestPacket_ToString :: "RequestPacket \<Rightarrow> byte list" where
  "RequestPacket_ToString = PacketWithHeader_ToString RequestHeader_ToBytes Address_ToString"

definition RequestPacket_StartCreateFrom ::
  "'t TransportBase \<Rightarrow> 't \<Rightarrow> (ec_type \<times> RequestPacket) \<times> 't" where
  "RequestPacket_StartCreateFrom tb =
     PacketWithHeader_StartCreateFrom RequestHeader_default Address_default
       (RequestHeader_StartCreateFrom tb) (Address_StartCreateFrom tb)"

definition ResponsePacket_StartCreateFrom ::
  "'t TransportBase \<Rightarrow> 't \<Rightarrow> (ec_type \<times> ResponsePacket) \<times> 't" where
  "ResponsePacket_StartCreateFrom tb =
     PacketWithHeader_StartCreateFrom ResponseHeader_default Address_default
       (ResponseHeader_StartCreateFrom tb) (Address_StartCreateFrom tb)"

section \<open>socks\_upstream.cc: the SOCKS upstream\<close>

text \<open>
  Modelled from the spec: \<^verbatim>\<open>impl::SocksTransportWrapper\<close> is declared in
  socks\_upstream.h, which is not among the sources; the code constructs it from the
  transport and the body of the response. The transport is wrapped "so its
  local\_address reports the ResponsePacket.body (the upstream-reported bound address)".
\<close>

record 't SocksTransportWrapper =
  wrapped_transport :: 't
  bound_address :: Address

definition SocksTransportWrapper_GetLocalAddress :: "'t SocksTransportWrapper \<Rightarrow> Address" where
  "SocksTransportWrapper_GetLocalAddress w = bound_address w"

text \<open>
  \<^verbatim>\<open>SocksTcpUpstreamFactory::SendSocksRequest\<close>. Every path invokes the request
  callback once; the result is the pair of arguments of that call (the error code, and
  the transport or \<open>None\<close> for \<^verbatim>\<open>nullptr\<close>) and the state of the transport to the
  upstream at that moment. The calls of the logger are left out.
\<close>

definition SendSocksRequest ::
  "'t TransportBase \<Rightarrow> Address \<Rightarrow> 't \<Rightarrow> (ec_type \<times> 't SocksTransportWrapper option) \<times> 't" where
  "SendSocksRequest tb endpoint transport =
     (let packet = RequestPacket_default;
          packet = packet\<lparr>header := (header packet)\<lparr>command := kConnect\<rparr>\<rparr>;
          packet = packet\<lparr>body := endpoint\<rparr>;
          ((ec, _), transport1) = StartWriteTo tb (RequestPacket_ToString packet) transport
      in if is_error ec then
           (let transport2 = StartClose_ignore tb transport1 in ((ec, None), transport2))
         else
           (let ((ec', packet'), transport2) = ResponsePacket_StartCreateFrom tb transport1
            in if is_error ec' \<or> response_code (header packet') \<noteq> kSuccess then
                 (let transport3 = StartClose_ignore tb transport2
                  in if is_error ec' then ((ec', None), transport3)
                     else ((make_error_code (response_code (header packet')), None), transport3))
               else
                 (let wrapped = \<lparr>wrapped_transport = transport2, bound_address = body packet'\<rparr>
                  in ((ec', Some wrapped), transport2))))"

text \<open>\<^verbatim>\<open>SocksTcpUpstreamFactory::SendAuthRequest\<close>, with the same reading of the result.\<close>

definition SendAuthRequest ::
  "'t TransportBase \<Rightarrow> Address \<Rightarrow> 't \<Rightarrow> (ec_type \<times> 't SocksTransportWrapper option) \<times> 't" where
  "SendAuthRequest tb endpoint transport =
     (let packet = AuthMethodList_default;
          packet = packet\<lparr>methods := methods packet @ [kNoAuth]\<rparr>;
          ((ec, _), transport1) = StartWriteTo tb (AuthMethodList_ToString packet) transport
      in if is_error ec then
           (let transport2 = StartClose_ignore tb transport1 in ((ec, None), transport2))
         else
           (let ((ec', packet'), transport2) = AuthMethodSelectPacket_StartCreateFrom tb transport1
            in if is_error ec' \<or> method packet' \<noteq> kNoAuth then
                 (let transport3 = StartClose_ignore tb transport2 in ((ec', None), transport3))
               else SendSocksRequest tb endpoint transport2))"

section \<open>direct\_upstream.cc: the direct upstream\<close>

text \<open>
  What a request to the direct upstream ends in: the call of the request callback, or
  undefined behaviour of the C++ (a host longer than the array of address bytes it is
  copied to, an empty set of resolver results dereferenced).
\<close>

datatype 'tr request_outcome = Callback ec_type "'tr option" | UndefinedBehaviour

text \<open>
  \<^verbatim>\<open>std::copy(host.cbegin(), host.cend(), address_bytes.begin())\<close>: the bytes of the
  source replace the front of the array, and the rest of the array keeps what it held.
  The array \<^verbatim>\<open>address_bytes\<close> is not initialised: what it holds before the copy is
  indeterminate, and is the parameter \<open>indeterminate\<close> of the request (the byte at each
  index).
\<close>

definition std_copy :: "byte list \<Rightarrow> byte list \<Rightarrow> byte list" where
  "std_copy source array = source @ drop (length source) array"

text \<open>An IP address from the array of its bytes, in network order.\<close>

definition from_bytes_v4 :: "byte list \<Rightarrow> 32 word" where
  "from_bytes_v4 bs = foldl (\<lambda>w b. push_bit 8 w OR ucast b) 0 bs"

definition from_bytes_v6 :: "byte list \<Rightarrow> 128 word" where
  "from_bytes_v6 bs = foldl (\<lambda>w b. push_bit 8 w OR ucast b) 0 bs"

text \<open>
  \<^verbatim>\<open>DirectTcpUpstreamFactory::StartRequest\<close>. The resolver and the transport factory are
  members of the factory: \<open>async_resolve\<close> gives the completion of a resolution (an
  error code and the results), \<open>StartConnect\<close> the arguments with which the transport
  factory calls back.
\<close>

definition DirectTcpUpstreamFactory_StartRequest ::
  "(nat \<Rightarrow> byte) \<Rightarrow> (byte list \<Rightarrow> 16 word \<Rightarrow> ec_type \<times> asio_endpoint list) \<Rightarrow>
   (asio_endpoint \<Rightarrow> ec_type \<times> 'tr option) \<Rightarrow> Address \<Rightarrow> 'tr request_outcome" where
  "DirectTcpUpstreamFactory_StartRequest indeterminate async_resolve StartConnect address =
     (if type address = kDomainName then
        (let (ec, iter) = async_resolve (host address) (Address.port address)
         in if is_error ec then Callback ec None
            else (case iter of
                    [] \<Rightarrow> UndefinedBehaviour
                  | first # _ \<Rightarrow> (let (ec', transport) = StartConnect first in Callback ec' transport)))
      else if type address = kIPv4 then
        (let address_bytes = map indeterminate [0..<4]
         in if length (host address) > length address_bytes then UndefinedBehaviour
         else
           let address_bytes = std_copy (host address) address_bytes;
               asio_addr = address_v4 (from_bytes_v4 address_bytes);
               (ec, transport) =
                 StartConnect \<lparr>endpoint_address = asio_addr, endpoint_port = Address.port address\<rparr>
           in Callback ec transport)
      else if type address = kIPv6 then
        (let address_bytes = map indeterminate [0..<16]
         in if length (host address) > length address_bytes then UndefinedBehaviour
         else
           let address_bytes = std_copy (host address) address_bytes;
               asio_addr = address_v6 (from_bytes_v6 address_bytes);
               (ec, transport) =
                 StartConnect \<lparr>endpoint_address = asio_addr, endpoint_port = Address.port address\<rparr>
           in Callback ec transport)
      else Callback no_error None)"

section \<open>tcp\_transport.cc: the transport on plain TCP\<close>

text \<open>
  The socket of Boost.Asio, as far as the transport uses it: whether it is open, and
  the calls of \<^verbatim>\<open>set_option\<close> the program has made on it. The list is not the state
  of the options in the operating system, where a socket accepted from a listener
  takes over the options of the listener.
\<close>

datatype socket_option = no_delay bool | reuse_address bool

record tcp_socket =
  is_open :: bool
  options_set :: "socket_option list"

text \<open>\<^verbatim>\<open>TcpTransportImpl\<close>, with its member \<^verbatim>\<open>socket_\<close>.\<close>

record TcpTransportImpl =
  socket :: tcp_socket

text \<open>
  What the operating system answers to \<^verbatim>\<open>shutdown(2)\<close> and \<^verbatim>\<open>close(2)\<close> on an open
  descriptor is a parameter. On a socket that is not open, Boost.Asio answers itself:
  \<^verbatim>\<open>shutdown\<close> sets the error \<^verbatim>\<open>bad_descriptor\<close>, \<^verbatim>\<open>close\<close> does nothing and sets no
  error. After \<^verbatim>\<open>close\<close> the socket is not open, whatever the answer. The overload
  \<^verbatim>\<open>close()\<close> without an error code throws \<^verbatim>\<open>boost::system::system_error\<close> where
  \<^verbatim>\<open>close(ec)\<close> sets an error.
\<close>

record os_answers =
  shutdown_answer :: ec_type
  close_answer :: ec_type

datatype 'a asio_result = Returned 'a | system_error ec_type

definition socket_shutdown :: "os_answers \<Rightarrow> tcp_socket \<Rightarrow> ec_type" where
  "socket_shutdown os s = (if is_open s then shutdown_answer os else bad_descriptor)"

definition socket_close_ec :: "os_answers \<Rightarrow> tcp_socket \<Rightarrow> ec_type \<times> tcp_socket" where
  "socket_close_ec os s =
     (if is_open s then (close_answer os, s\<lparr>is_open := False\<rparr>) else (no_error, s))"

definition socket_close :: "os_answers \<Rightarrow> tcp_socket \<Rightarrow> tcp_socket asio_result" where
  "socket_close os s =
     (let (ec, s') = socket_close_ec os s
      in if is_error ec then system_error ec else Returned s')"

definition socket_set_option :: "socket_option \<Rightarrow> tcp_socket \<Rightarrow> tcp_socket" where
  "socket_set_option opt s = s\<lparr>options_set := options_set s @ [opt]\<rparr>"

text \<open>
  \<^verbatim>\<open>TcpTransportImpl::StartClose(callback)\<close>: the result is the error code the callback
  is invoked with and the transport, or the exception that leaves the function.
\<close>

definition TcpTransportImpl_StartClose ::
  "os_answers \<Rightarrow> TcpTransportImpl \<Rightarrow> (ec_type \<times> TcpTransportImpl) asio_result" where
  "TcpTransportImpl_StartClose os transport =
     (let ec = socket_shutdown os (socket transport)
      in if is_error ec then
           (case socket_close os (socket transport) of
              system_error e \<Rightarrow> system_error e
            | Returned s \<Rightarrow> Returned (ec, transport\<lparr>socket := s\<rparr>))
         else
           (let (ec', s) = socket_close_ec os (socket transport)
            in Returned (ec', transport\<lparr>socket := s\<rparr>)))"

text \<open>
  \<^verbatim>\<open>TcpTransportFactoryImpl::NewTransport\<close>: a transport on a fresh socket, not open, with
  no option set.
\<close>

definition NewTransport :: TcpTransportImpl where
  "NewTransport = \<lparr>socket = \<lparr>is_open = False, options_set = []\<rparr>\<rparr>"

text \<open>
  The acceptor: the endpoint it listens on and the options set on it. Its constructor
  and \<^verbatim>\<open>set_option\<close> throw when the operating system refuses; the model follows the
  runs in which it does not.
\<close>

record tcp_acceptor =
  listen_endpoint :: asio_endpoint
  acceptor_options_set :: "socket_option list"

definition acceptor_set_option :: "socket_option \<Rightarrow> tcp_acceptor \<Rightarrow> tcp_acceptor" where
  "acceptor_set_option opt a = a\<lparr>acceptor_options_set := acceptor_options_set a @ [opt]\<rparr>"

text \<open>
  \<^verbatim>\<open>TcpTransportFactoryImpl::DoAccept\<close>. The list holds the error codes with which the
  successive \<^verbatim>\<open>async_accept\<close> operations complete (an accept that succeeds leaves the
  socket of the transport open); when it is empty the pending accept does not complete.
  The accept callback answers whether to go on accepting. The result is the list of
  the arguments the callback was invoked with.
\<close>

fun DoAccept ::
  "tcp_acceptor \<Rightarrow> (ec_type \<Rightarrow> TcpTransportImpl \<Rightarrow> bool) \<Rightarrow> ec_type list
     \<Rightarrow> (ec_type \<times> TcpTransportImpl) list" where
  "DoAccept acceptor callback [] = []"
| "DoAccept acceptor callback (ec # completions) =
     (let transport = NewTransport;
          transport = (if is_error ec then transport
                       else transport\<lparr>socket := (socket transport)\<lparr>is_open := True\<rparr>\<rparr>)
      in (ec, transport) #
         (if callback ec transport then DoAccept acceptor callback completions else []))"

text \<open>\<^verbatim>\<open>TcpTransportFactoryImpl::StartAccept\<close>: the acceptor, and what \<^verbatim>\<open>DoAccept\<close> delivers.\<close>

definition TcpTransportFactoryImpl_StartAccept ::
  "asio_endpoint \<Rightarrow> (ec_type \<Rightarrow> TcpTransportImpl \<Rightarrow> bool) \<Rightarrow> ec_type list
     \<Rightarrow> tcp_acceptor \<times> (ec_type \<times> TcpTransportImpl) list" where
  "TcpTransportFactoryImpl_StartAccept endpoint callback completions =
     (let acceptor = \<lparr>listen_endpoint = endpoint, acceptor_options_set = []\<rparr>;
          acceptor = acceptor_set_option (no_delay True) acceptor;
          acceptor = acceptor_set_option (reuse_address True) acceptor
      in (acceptor, DoAccept acceptor callback completions))"

text \<open>
  \<^verbatim>\<open>TcpTransportFactoryImpl::StartConnect\<close>: \<^verbatim>\<open>async_connect\<close> opens the socket and
  completes with the error code \<open>ec\<close>. The result is the pair of arguments of the connect
  callback, or the exception that \<^verbatim>\<open>StartClose\<close> lets through.
\<close>

definition TcpTransportFactoryImpl_StartConnect ::
  "os_answers \<Rightarrow> asio_endpoint \<Rightarrow> ec_type \<Rightarrow> (ec_type \<times> TcpTransportImpl option) asio_result" where
  "TcpTransportFactoryImpl_StartConnect os endpoint ec =
     (let transport = NewTransport;
          transport = transport\<lparr>socket := (socket transport)\<lparr>is_open := True\<rparr>\<rparr>
      in if is_error ec then
           (case TcpTransportImpl_StartClose os transport of
              system_error e \<Rightarrow> system_error e
            | Returned _ \<Rightarrow> Returned (ec, None))
         else
           (let transport = transport\<lparr>socket := socket_set_option (no_delay True) (socket transport)\<rparr>
            in Returned (ec, Some transport)))"

text \<open>
  \<^verbatim>\<open>TcpTransportFactoryImpl::TryConnect\<close>: \<^verbatim>\<open>boost::asio::connect\<close> tries the resolver
  results in turn and leaves its outcome in \<^verbatim>\<open>error_code\<close>, here \<open>connect_ec\<close>. The
  transport is returned in either case.
\<close>

definition TcpTransportFactoryImpl_TryConnect :: "ec_type \<Rightarrow> TcpTransportImpl \<times> ec_type" where
  "TcpTransportFactoryImpl_TryConnect connect_ec =
     (let transport = NewTransport;
          transport = (if is_error connect_ec then transport
                       else transport\<lparr>socket := (socket transport)\<lparr>is_open := True\<rparr>\<rparr>);
          error_code = connect_ec
      in (transport, error_code))"

section \<open>ssl.cc: the builder of the TLS transport factory\<close>

text \<open>
  \<^verbatim>\<open>SslTransportImpl\<close>: of its member \<^verbatim>\<open>ssl_sock_\<close>, the TCP socket below the stream.
\<close>

record SslTransportImpl =
  lowest_layer :: tcp_socket

text \<open>
  \<^verbatim>\<open>SslTransportFactoryImpl::TryConnect\<close>: \<open>connect_ec\<close> is the outcome of
  \<^verbatim>\<open>boost::asio::connect\<close>, \<open>handshake_ec\<close> that of the handshake, which runs only
  after a connect without error. On an error the transport is closed and the result is
  \<^verbatim>\<open>nullptr\<close>.
\<close>

definition SslTransportFactoryImpl_TryConnect ::
  "ec_type \<Rightarrow> ec_type \<Rightarrow> SslTransportImpl option \<times> ec_type" where
  "SslTransportFactoryImpl_TryConnect connect_ec handshake_ec =
     (let transport = \<lparr>lowest_layer = \<lparr>is_open = False, options_set = []\<rparr>\<rparr>;
          error_code = connect_ec;
          (transport, error_code) =
            (if \<not> is_error error_code then
               (transport\<lparr>lowest_layer :=
                  socket_set_option (no_delay True) ((lowest_layer transport)\<lparr>is_open := True\<rparr>)\<rparr>,
                handshake_ec)
             else (transport, error_code))
      in if is_error error_code then (None, error_code)
         else (Some transport, error_code))"

text \<open>
  The options the constructor of the builder sets on its \<^verbatim>\<open>boost::asio::ssl::context\<close>.
\<close>

datatype ssl_option = no_sslv2 | no_sslv3 | no_tlsv1 | single_dh_use | default_workarounds

record ssl_context =
  ssl_options :: "ssl_option list"

record SslTransportFactoryImpl =
  io_service_ptr :: nat
  factory_ssl_ctx :: ssl_context

text \<open>
  The builder, with its members \<^verbatim>\<open>ssl_ctx_\<close> and \<^verbatim>\<open>used_\<close> (the names without the
  trailing underscore). The constructor sets the options and \<^verbatim>\<open>used_(false)\<close>.
\<close>

record SslTransportFactoryBuilder =
  ssl_ctx :: ssl_context
  used :: bool

definition SslTransportFactoryBuilder_new :: SslTransportFactoryBuilder where
  "SslTransportFactoryBuilder_new =
     \<lparr>ssl_ctx = \<lparr>ssl_options = [no_sslv2, no_sslv3, no_tlsv1, single_dh_use, default_workarounds]\<rparr>,
      used = False\<rparr>"

text \<open>
  \<^verbatim>\<open>SslTransportFactoryBuilder::Build\<close>: the factory, or \<open>None\<close> for \<^verbatim>\<open>nullptr\<close>, and the
  builder afterwards. The \<^verbatim>\<open>io_service\<close> is named by a number; the context is moved
  into the factory, and nothing reads the builder's afterwards.
\<close>

definition Build ::
  "nat \<Rightarrow> SslTransportFactoryBuilder \<Rightarrow> SslTransportFactoryImpl option \<times> SslTransportFactoryBuilder" where
  "Build io_service builder =
     (if used builder then (None, builder)
      else
        (let builder' = builder\<lparr>used := True\<rparr>
         in (Some \<lparr>io_service_ptr = io_service, factory_ssl_ctx = ssl_ctx builder\<rparr>, builder')))"

text \<open>Successive calls of \<^verbatim>\<open>Build\<close> on one builder, and what each returns.\<close>

fun Build_calls ::
  "nat list \<Rightarrow> SslTransportFactoryBuilder \<Rightarrow> SslTransportFactoryImpl option list" where
  "Build_calls [] builder = []"
| "Build_calls (io_service # rest) builder =
     (let (factory, builder') = Build io_service builder in factory # Build_calls rest builder')"

section \<open>mocks.h: the transport of the tests\<close>

text \<open>
  \<^verbatim>\<open>struct MockTransport\<close> with its members as declared in mocks.h, and a transport
  with the given bytes to read and the default member initialisers otherwise.
\<close>

record MockTransport =
  local_address :: Address
  read_buf :: "byte list"
  write_buf :: "byte list"
  ec :: ec_type
  closed :: bool

definition MockTransport_New :: "byte list \<Rightarrow> MockTransport" where
  "MockTransport_New buf =
     \<lparr>local_address = Address_default, read_buf = buf, write_buf = [], ec = no_error,
      closed = False\<rparr>"

text \<open>
  Modelled from the spec: the member functions of \<^verbatim>\<open>MockTransport\<close> are defined in
  mocks.cc, which is not among the sources. They follow the contract of a transport:
  a read that may not be short "completes only when buf is fully filled or error", and
  "on EOF before completion" it "completes with an end-of-file error"; a write
  "completes when all bytes have been flushed to the stream or on error"; "a transport
  that has been close()d reports errors on any subsequent read/write". The bytes of
  \<^verbatim>\<open>read_buf\<close> are what the peer sends before it closes, \<^verbatim>\<open>write_buf\<close> collects what
  is written, and an error code stored in \<^verbatim>\<open>ec\<close> fails every operation.
\<close>

definition MockTransport_StartRead ::
  "nat \<Rightarrow> bool \<Rightarrow> MockTransport \<Rightarrow> (ec_type \<times> byte list) \<times> MockTransport" where
  "MockTransport_StartRead n allow_short_read t =
     (if is_error (ec t) then ((ec t, []), t)
      else if closed t then ((bad_descriptor, []), t)
      else
        let received = take n (read_buf t);
            t' = t\<lparr>read_buf := drop n (read_buf t)\<rparr>
        in if length received < n \<and> (\<not> allow_short_read \<or> received = [])
           then ((eof, received), t')
           else ((no_error, received), t'))"

definition MockTransport_StartWrite ::
  "byte list \<Rightarrow> MockTransport \<Rightarrow> (ec_type \<times> nat) \<times> MockTransport" where
  "MockTransport_StartWrite bs t =
     (if is_error (ec t) then ((ec t, 0), t)
      else if closed t then ((bad_descriptor, 0), t)
      else ((no_error, length bs), t\<lparr>write_buf := write_buf t @ bs\<rparr>))"

definition MockTransport_StartClose :: "MockTransport \<Rightarrow> ec_type \<times> MockTransport" where
  "MockTransport_StartClose t = (ec t, t\<lparr>closed := True\<rparr>)"

definition MockTransport_vtable :: "MockTransport TransportBase" where
  "MockTransport_vtable =
     \<lparr>GetLocalAddress = local_address,
      StartRead = MockTransport_StartRead,
      StartWrite = MockTransport_StartWrite,
      StartClose = MockTransport_StartClose\<rparr>"

section \<open>The invariant of addresses\<close>




text \<open>
  The addresses read from the wire satisfy the invariant too, whatever the transport
  delivers: a failed read yields the default address, and a domain name has the length
  its length byte gives, which is at least 1 and at most 255.
\<close>

lemma length_fill_buffer: "length (fill_buffer buf received) = length buf"
  by (simp add: fill_buffer_def)

lemma Address_read_host_port_length:
  "Address_read_host_port tb atyp n t = ((e, a), t') \<Longrightarrow> \<not> is_error e \<Longrightarrow>
     type a = atyp \<and> length (host a) = n"
  by (auto simp: Address_read_host_port_def Let_def length_fill_buffer
        split: prod.splits if_splits)

lemma Address_read_host_port_error:
  "Address_read_host_port tb atyp n t = ((e, a), t') \<Longrightarrow> is_error e \<Longrightarrow> a = Address_default"
  by (auto simp: Address_read_host_port_def Let_def split: prod.splits if_splits)

lemma host_matches_type_default: "host_matches_type Address_default"
  by (simp add: host_matches_type_def Address_default_def kIPv4_def kIPv6_def kDomainName_def)

lemma Address_read_host_port_invariant:
  assumes "Address_read_host_port tb atyp n t = ((e, a), t')"
    and "atyp = kIPv4 \<longrightarrow> n = 4" and "atyp = kIPv6 \<longrightarrow> n = 16"
    and "atyp = kDomainName \<longrightarrow> 1 \<le> n \<and> n \<le> 255"
  shows "host_matches_type a"
proof (cases "is_error e")
  case True
  from Address_read_host_port_error [OF assms(1) True] show ?thesis
    by (simp add: host_matches_type_default)
next
  case False
  from Address_read_host_port_length [OF assms(1) False] assms(2-4) show ?thesis
    by (simp add: host_matches_type_def)
qed

lemma unat_byte_le: "unat (b :: byte) \<le> 255"
  using unsigned_less [of b, where ?'a = nat] by simp

lemma Address_StartCreateFrom_host_matches_type:
  assumes "Address_StartCreateFrom tb t = ((e, a), t')"
  shows "host_matches_type a"
proof -
  obtain e1 r1 t1 where r: "StartRead tb 1 False t = ((e1, r1), t1)"
    by (metis surj_pair)
  define atyp where "atyp = fill_buffer [0] r1 ! 0"
  obtain e2 r2 t2 where r': "StartRead tb 1 False t1 = ((e2, r2), t2)"
    by (metis surj_pair)
  define len where "len = unat (fill_buffer [0] r2 ! 0)"
  have len: "len \<le> 255"
    unfolding len_def by (rule unat_byte_le)
  have distinct: "kIPv4 \<noteq> kIPv6" "kIPv4 \<noteq> kDomainName" "kIPv6 \<noteq> kDomainName"
    by (simp_all add: kIPv4_def kIPv6_def kDomainName_def)
  consider (err) "a = Address_default"
    | (v4) "atyp = kIPv4" "Address_read_host_port tb atyp 4 t1 = ((e, a), t')"
    | (v6) "atyp = kIPv6" "Address_read_host_port tb atyp 16 t1 = ((e, a), t')"
    | (dom) "atyp = kDomainName" "len \<noteq> 0" "Address_read_host_port tb atyp len t2 = ((e, a), t')"
    using assms r r' distinct
    by (simp add: Address_StartCreateFrom_def Let_def atyp_def len_def split: if_splits)
  then show ?thesis
  proof cases
    case err
    then show ?thesis by (simp add: host_matches_type_default)
  next
    case v4
    from Address_read_host_port_invariant [OF v4(2)] v4(1) distinct show ?thesis by simp
  next
    case v6
    from Address_read_host_port_invariant [OF v6(2)] v6(1) distinct show ?thesis by simp
  next
    case dom
    from Address_read_host_port_invariant [OF dom(3)] dom(1,2) distinct len show ?thesis by simp
  qed
qed

section \<open>The builder builds once\<close>

lemma Build_calls_used: "used builder \<Longrightarrow> Build_calls ios builder = map (\<lambda>_. None) ios"
  by (induction ios arbitrary: builder) (simp_all add: Build_def)

text \<open>
  C9: a builder builds at most one factory. Of the calls of \<^verbatim>\<open>Build\<close> on a builder that
  has not been used, the first returns a factory (holding the context of the builder)
  and every later one returns null; on a builder that has been used every call returns
  null; and a freshly constructed builder has not been used.
\<close>

theorem Build_single_shot:
  "(\<not> used builder \<longrightarrow>
      Build_calls (io # ios) builder =
        Some \<lparr>io_service_ptr = io, factory_ssl_ctx = ssl_ctx builder\<rparr> # map (\<lambda>_. None) ios) \<and>
   (used builder \<longrightarrow> Build_calls ios builder = map (\<lambda>_. None) ios) \<and>
   \<not> used SslTransportFactoryBuilder_new"
  by (simp add: Build_def SslTransportFactoryBuilder_new_def Build_calls_used)

theorem Build_single_shot_witness:
  "Build_calls [1, 2, 3] SslTransportFactoryBuilder_new =
     [Some \<lparr>io_service_ptr = 1,
            factory_ssl_ctx =
              \<lparr>ssl_options = [no_sslv2, no_sslv3, no_tlsv1, single_dh_use, default_workarounds]\<rparr>\<rparr>,
      None, None] \<and>
   Build_calls [4, 5] (snd (Build 1 SslTransportFactoryBuilder_new)) = [None, None]"
proof -
  have u: "used (snd (Build 1 SslTransportFactoryBuilder_new))"
    by (simp add: Build_def SslTransportFactoryBuilder_new_def)
  from Build_single_shot [of SslTransportFactoryBuilder_new 1 "[2, 3]"]
    Build_single_shot [of "snd (Build 1 SslTransportFactoryBuilder_new)" 1 "[4, 5]"] u
  show ?thesis
    by (simp add: SslTransportFactoryBuilder_new_def)
qed

section \<open>Evaluation of the definitions\<close>

lemmas ec_defs = is_error_def no_error_def eof_def bad_descriptor_def make_error_code_def

lemmas enum_defs = kIPv4_def kIPv6_def kDomainName_def kNoAuth_def kConnect_def kSuccess_def
  kGeneralFailure_def kAddressTypeNotSupported_def

lemmas mock_defs = MockTransport_vtable_def MockTransport_StartRead_def
  MockTransport_StartWrite_def MockTransport_StartClose_def MockTransport_New_def
  StartClose_ignore_def StartWriteTo_def Let_def

lemmas packet_defs = PacketWithSize_StartCreateFrom_def PacketWithHeader_StartCreateFrom_def
  PacketWithHeader_ToString_def fill_buffer_def
  AuthMethodList_default_def AuthMethodList_ToString_def
  AuthMethodSelectPacket_default_def AuthMethodSelectPacket_FromBytes_def
  AuthMethodSelectPacket_StartCreateFrom_def
  RequestHeader_default_def RequestHeader_ToBytes_def protocol_error_def
  RequestHeader_Validate_def RequestHeader_StartCreateFrom_def
  ResponseHeader_default_def ResponseHeader_FromBytes_def ResponseHeader_StartCreateFrom_def
  Address_default_def Address_ToString_def Address_read_host_port_def Address_StartCreateFrom_def
  RequestPacket_default_def ResponsePacket_default_def RequestPacket_ToString_def
  RequestPacket_StartCreateFrom_def ResponsePacket_StartCreateFrom_def

section \<open>Reading packets\<close>




text \<open>
  C10: when a read completes with an error, the callback receives that error and a
  default-constructed packet. In the fixed-size pattern this is the one read of the
  packet; in the header-then-body pattern it is the read of the header, or the read of
  the body after the header was read successfully, and then the header read before is
  not in the packet either.
\<close>

theorem StartCreateFrom_error_default_packet:
  "(StartRead tb N False t = ((e, received), t') \<and> is_error e \<longrightarrow>
      PacketWithSize_StartCreateFrom packet0 FromBytes N tb t = ((e, packet0), t')) \<and>
   (Header_StartCreateFrom u = ((e1, h), u1) \<and> is_error e1 \<longrightarrow>
      PacketWithHeader_StartCreateFrom h0 b0 Header_StartCreateFrom Body_StartCreateFrom u =
        ((e1, \<lparr>header = h0, body = b0\<rparr>), u1)) \<and>
   (Header_StartCreateFrom u = ((e1, h), u1) \<and> \<not> is_error e1 \<and>
    Body_StartCreateFrom u1 = ((e2, b), u2) \<and> is_error e2 \<longrightarrow>
      PacketWithHeader_StartCreateFrom h0 b0 Header_StartCreateFrom Body_StartCreateFrom u =
        ((e2, \<lparr>header = h0, body = b0\<rparr>), u2))"
  by (simp add: PacketWithSize_StartCreateFrom_def PacketWithHeader_StartCreateFrom_def)

theorem StartCreateFrom_error_default_packet_witness:
  "AuthMethodSelectPacket_StartCreateFrom MockTransport_vtable (MockTransport_New [5]) =
     ((eof, AuthMethodSelectPacket_default), MockTransport_New []) \<and>
   ResponsePacket_StartCreateFrom MockTransport_vtable (MockTransport_New [5, 1, 0, 1, 127, 0]) =
     ((eof, ResponsePacket_default), MockTransport_New []) \<and>
   response_code (header ResponsePacket_default) = kSuccess"
proof -
  have h1: "StartRead MockTransport_vtable 2 False (MockTransport_New [5]) =
      ((eof, [5]), MockTransport_New []) \<and> is_error eof"
    by (simp add: mock_defs ec_defs)
  have h2: "ResponseHeader_StartCreateFrom MockTransport_vtable
      (MockTransport_New [5, 1, 0, 1, 127, 0]) =
      ((no_error, \<lparr>response_version = 5, response_code = kGeneralFailure, response_reserved = 0\<rparr>),
       MockTransport_New [1, 127, 0]) \<and> \<not> is_error no_error \<and>
    Address_StartCreateFrom MockTransport_vtable (MockTransport_New [1, 127, 0]) =
      ((eof, Address_default), MockTransport_New []) \<and> is_error eof"
    by (simp add: packet_defs mock_defs ec_defs enum_defs)
  from h1 h2
    StartCreateFrom_error_default_packet
      [where tb = MockTransport_vtable and N = 2 and t = "MockTransport_New [5]" and e = eof
         and received = "[5]" and t' = "MockTransport_New []"
         and ?packet0.0 = AuthMethodSelectPacket_default
         and FromBytes = AuthMethodSelectPacket_FromBytes
         and Header_StartCreateFrom = "ResponseHeader_StartCreateFrom MockTransport_vtable"
         and u = "MockTransport_New [5, 1, 0, 1, 127, 0]" and ?e1.0 = no_error
         and h = "\<lparr>response_version = 5, response_code = kGeneralFailure, response_reserved = 0\<rparr>"
         and ?u1.0 = "MockTransport_New [1, 127, 0]"
         and ?h0.0 = ResponseHeader_default and ?b0.0 = Address_default
         and Body_StartCreateFrom = "Address_StartCreateFrom MockTransport_vtable"
         and ?e2.0 = eof and b = Address_default and ?u2.0 = "MockTransport_New []"]
  show ?thesis
    by (simp add: AuthMethodSelectPacket_StartCreateFrom_def ResponsePacket_StartCreateFrom_def
          ResponsePacket_default_def ResponseHeader_default_def)
qed

section \<open>The SOCKS upstream\<close>

text \<open>
  C1: when the request packet has been written and the response packet arrives without
  a transport error but with a response code R other than Success, SendSocksRequest
  closes the transport to the upstream and invokes the request callback with the error
  code made of R (its value is R, and it is an error) and a null transport.
\<close>

theorem SendSocksRequest_passes_response_code:
  assumes "StartWriteTo tb
             (RequestPacket_ToString
               \<lparr>header = RequestHeader_default\<lparr>command := kConnect\<rparr>, body = endpoint\<rparr>) t =
             ((e0, n), t1)"
    and "\<not> is_error e0"
    and "ResponsePacket_StartCreateFrom tb t1 = ((e1, p), t2)"
    and "\<not> is_error e1"
    and "response_code (header p) \<noteq> kSuccess"
  shows "SendSocksRequest tb endpoint t =
           ((make_error_code (response_code (header p)), None), snd (StartClose tb t2)) \<and>
         ec_value (make_error_code (response_code (header p))) = uint (response_code (header p)) \<and>
         is_error (make_error_code (response_code (header p)))"
  using assms
  by (simp add: SendSocksRequest_def RequestPacket_default_def StartClose_ignore_def
        make_error_code_def is_error_def kSuccess_def unsigned_eq_0_iff)

theorem SendSocksRequest_passes_response_code_witness:
  "SendSocksRequest MockTransport_vtable \<lparr>type = kIPv4, host = [93, 184, 216, 34], port = 80\<rparr>
     (MockTransport_New [5, 5, 0, 1, 0, 0, 0, 0, 0, 0]) =
     ((\<lparr>ec_value = 5, ec_category = socks_category\<rparr>, None),
      \<lparr>local_address = Address_default, read_buf = [],
       write_buf = [5, 1, 0, 1, 93, 184, 216, 34, 0, 80], ec = no_error, closed = True\<rparr>)"
proof -
  have w: "StartWriteTo MockTransport_vtable
      (RequestPacket_ToString
        \<lparr>header = RequestHeader_default\<lparr>command := kConnect\<rparr>,
         body = \<lparr>type = kIPv4, host = [93, 184, 216, 34], port = 80\<rparr>\<rparr>)
      (MockTransport_New [5, 5, 0, 1, 0, 0, 0, 0, 0, 0]) =
      ((no_error, 10),
       (MockTransport_New [5, 5, 0, 1, 0, 0, 0, 0, 0, 0])
         \<lparr>write_buf := [5, 1, 0, 1, 93, 184, 216, 34, 0, 80]\<rparr>)"
    by (simp add: packet_defs mock_defs ec_defs enum_defs)
  have r: "ResponsePacket_StartCreateFrom MockTransport_vtable
      ((MockTransport_New [5, 5, 0, 1, 0, 0, 0, 0, 0, 0])
         \<lparr>write_buf := [5, 1, 0, 1, 93, 184, 216, 34, 0, 80]\<rparr>) =
      ((no_error,
        \<lparr>header = \<lparr>response_version = 5, response_code = 5, response_reserved = 0\<rparr>,
         body = \<lparr>type = kIPv4, host = [0, 0, 0, 0], port = 0\<rparr>\<rparr>),
       (MockTransport_New [])\<lparr>write_buf := [5, 1, 0, 1, 93, 184, 216, 34, 0, 80]\<rparr>)"
    by (simp add: packet_defs mock_defs ec_defs enum_defs)
  have ok: "\<not> is_error no_error"
    by (simp add: ec_defs)
  have code: "response_code
      (header \<lparr>header = \<lparr>response_version = 5, response_code = 5, response_reserved = 0\<rparr>,
               body = \<lparr>type = kIPv4, host = [0, 0, 0, 0], port = 0\<rparr>\<rparr>) \<noteq> kSuccess"
    by (simp add: kSuccess_def)
  from SendSocksRequest_passes_response_code [OF w ok r ok code] show ?thesis
    by (simp add: mock_defs ec_defs Address_default_def)
qed

text \<open>
  C4: when the request packet has been written and the response packet arrives without
  a transport error and with the response code Success, the callback receives no error
  and a wrapper of the transport whose GetLocalAddress is the bound address in the body
  of the response, whatever the transport itself reports as its local address.
\<close>

theorem SendSocksRequest_wraps_bound_address:
  assumes "StartWriteTo tb
             (RequestPacket_ToString
               \<lparr>header = RequestHeader_default\<lparr>command := kConnect\<rparr>, body = endpoint\<rparr>) t =
             ((e0, n), t1)"
    and "\<not> is_error e0"
    and "ResponsePacket_StartCreateFrom tb t1 = ((e1, p), t2)"
    and "\<not> is_error e1"
    and "response_code (header p) = kSuccess"
  shows "SendSocksRequest tb endpoint t =
           ((e1, Some \<lparr>wrapped_transport = t2, bound_address = body p\<rparr>), t2) \<and>
         SocksTransportWrapper_GetLocalAddress \<lparr>wrapped_transport = t2, bound_address = body p\<rparr> =
           body p"
  using assms
  by (simp add: SendSocksRequest_def RequestPacket_default_def
        SocksTransportWrapper_GetLocalAddress_def)

theorem SendSocksRequest_wraps_bound_address_witness:
  "SendSocksRequest MockTransport_vtable \<lparr>type = kIPv4, host = [93, 184, 216, 34], port = 80\<rparr>
     ((MockTransport_New [5, 0, 0, 1, 10, 0, 0, 1, 16, 225])
        \<lparr>local_address := \<lparr>type = kIPv4, host = [192, 168, 0, 2], port = 50000\<rparr>\<rparr>) =
     ((no_error,
       Some \<lparr>wrapped_transport =
               \<lparr>local_address = \<lparr>type = kIPv4, host = [192, 168, 0, 2], port = 50000\<rparr>,
                read_buf = [], write_buf = [5, 1, 0, 1, 93, 184, 216, 34, 0, 80],
                ec = no_error, closed = False\<rparr>,
             bound_address = \<lparr>type = kIPv4, host = [10, 0, 0, 1], port = 4321\<rparr>\<rparr>),
      \<lparr>local_address = \<lparr>type = kIPv4, host = [192, 168, 0, 2], port = 50000\<rparr>,
       read_buf = [], write_buf = [5, 1, 0, 1, 93, 184, 216, 34, 0, 80], ec = no_error,
       closed = False\<rparr>) \<and>
   SocksTransportWrapper_GetLocalAddress
     \<lparr>wrapped_transport =
        \<lparr>local_address = \<lparr>type = kIPv4, host = [192, 168, 0, 2], port = 50000\<rparr>,
         read_buf = [], write_buf = [5, 1, 0, 1, 93, 184, 216, 34, 0, 80],
         ec = no_error, closed = False\<rparr>,
      bound_address = \<lparr>type = kIPv4, host = [10, 0, 0, 1], port = 4321\<rparr>\<rparr> =
     \<lparr>type = kIPv4, host = [10, 0, 0, 1], port = 4321\<rparr> \<and>
   GetLocalAddress MockTransport_vtable
     \<lparr>local_address = \<lparr>type = kIPv4, host = [192, 168, 0, 2], port = 50000\<rparr>,
      read_buf = [], write_buf = [5, 1, 0, 1, 93, 184, 216, 34, 0, 80],
      ec = no_error, closed = False\<rparr> =
     \<lparr>type = kIPv4, host = [192, 168, 0, 2], port = 50000\<rparr>"
proof -
  have w: "StartWriteTo MockTransport_vtable
      (RequestPacket_ToString
        \<lparr>header = RequestHeader_default\<lparr>command := kConnect\<rparr>,
         body = \<lparr>type = kIPv4, host = [93, 184, 216, 34], port = 80\<rparr>\<rparr>)
      ((MockTransport_New [5, 0, 0, 1, 10, 0, 0, 1, 16, 225])
         \<lparr>local_address := \<lparr>type = kIPv4, host = [192, 168, 0, 2], port = 50000\<rparr>\<rparr>) =
      ((no_error, 10),
       \<lparr>local_address = \<lparr>type = kIPv4, host = [192, 168, 0, 2], port = 50000\<rparr>,
        read_buf = [5, 0, 0, 1, 10, 0, 0, 1, 16, 225],
        write_buf = [5, 1, 0, 1, 93, 184, 216, 34, 0, 80], ec = no_error, closed = False\<rparr>)"
    by (simp add: packet_defs mock_defs ec_defs enum_defs)
  have r: "ResponsePacket_StartCreateFrom MockTransport_vtable
      \<lparr>local_address = \<lparr>type = kIPv4, host = [192, 168, 0, 2], port = 50000\<rparr>,
       read_buf = [5, 0, 0, 1, 10, 0, 0, 1, 16, 225],
       write_buf = [5, 1, 0, 1, 93, 184, 216, 34, 0, 80], ec = no_error, closed = False\<rparr> =
      ((no_error,
        \<lparr>header = \<lparr>response_version = 5, response_code = kSuccess, response_reserved = 0\<rparr>,
         body = \<lparr>type = kIPv4, host = [10, 0, 0, 1], port = 4321\<rparr>\<rparr>),
       \<lparr>local_address = \<lparr>type = kIPv4, host = [192, 168, 0, 2], port = 50000\<rparr>,
        read_buf = [], write_buf = [5, 1, 0, 1, 93, 184, 216, 34, 0, 80], ec = no_error,
        closed = False\<rparr>)"
    by (simp add: packet_defs mock_defs ec_defs enum_defs)
  have ok: "\<not> is_error no_error"
    by (simp add: ec_defs)
  have code: "response_code
      (header \<lparr>header = \<lparr>response_version = 5, response_code = kSuccess, response_reserved = 0\<rparr>,
               body = \<lparr>type = kIPv4, host = [10, 0, 0, 1], port = 4321\<rparr>\<rparr>) = kSuccess"
    by simp
  from SendSocksRequest_wraps_bound_address [OF w ok r ok code] show ?thesis
    by (simp add: MockTransport_vtable_def)
qed

text \<open>
  C5 fails in the code. When the greeting has been written and the method selection
  arrives without a transport error but selects a method other than NoAuth,
  SendAuthRequest closes the transport to the upstream and invokes the callback with a
  null transport, and with the error code of the read, which is not an error: the
  callback receives no error indication.
\<close>

theorem SendAuthRequest_unsupported_method:
  assumes "StartWriteTo tb
             (AuthMethodList_ToString (AuthMethodList_default\<lparr>methods := [kNoAuth]\<rparr>)) t =
             ((e0, n), t1)"
    and "\<not> is_error e0"
    and "AuthMethodSelectPacket_StartCreateFrom tb t1 = ((e1, p), t2)"
    and "\<not> is_error e1"
    and "method p \<noteq> kNoAuth"
  shows "SendAuthRequest tb endpoint t = ((e1, None), snd (StartClose tb t2)) \<and> \<not> is_error e1"
  using assms
  by (simp add: SendAuthRequest_def AuthMethodList_default_def StartClose_ignore_def)

theorem SendAuthRequest_unsupported_method_witness:
  "SendAuthRequest MockTransport_vtable \<lparr>type = kIPv4, host = [93, 184, 216, 34], port = 80\<rparr>
     (MockTransport_New [5, 2]) =
     ((no_error, None),
      \<lparr>local_address = Address_default, read_buf = [], write_buf = [5, 1, 0], ec = no_error,
       closed = True\<rparr>) \<and>
   \<not> is_error no_error"
proof -
  have w: "StartWriteTo MockTransport_vtable
      (AuthMethodList_ToString (AuthMethodList_default\<lparr>methods := [kNoAuth]\<rparr>))
      (MockTransport_New [5, 2]) =
      ((no_error, 3), (MockTransport_New [5, 2])\<lparr>write_buf := [5, 1, 0]\<rparr>)"
    by (simp add: packet_defs mock_defs ec_defs enum_defs)
  have r: "AuthMethodSelectPacket_StartCreateFrom MockTransport_vtable
      ((MockTransport_New [5, 2])\<lparr>write_buf := [5, 1, 0]\<rparr>) =
      ((no_error, \<lparr>select_version = 5, method = 2\<rparr>),
       (MockTransport_New [])\<lparr>write_buf := [5, 1, 0]\<rparr>)"
    by (simp add: packet_defs mock_defs ec_defs enum_defs)
  have ok: "\<not> is_error no_error"
    by (simp add: ec_defs)
  have m: "method \<lparr>select_version = 5, method = 2\<rparr> \<noteq> kNoAuth"
    by (simp add: kNoAuth_def)
  from SendAuthRequest_unsupported_method [OF w ok r ok m] show ?thesis
    by (simp add: mock_defs ec_defs Address_default_def)
qed

section \<open>The direct upstream\<close>

text \<open>
  C2 fails in the code. For an address whose type is none of IPv4, DomainName and IPv6,
  \<^verbatim>\<open>DirectTcpUpstreamFactory::StartRequest\<close> invokes the callback with a null transport
  and with the empty error code \<^verbatim>\<open>ec_type()\<close>, not with an error
  AddressTypeNotSupported.
\<close>

theorem DirectTcpUpstreamFactory_unknown_type:
  "type address \<noteq> kDomainName \<Longrightarrow> type address \<noteq> kIPv4 \<Longrightarrow> type address \<noteq> kIPv6 \<Longrightarrow>
   DirectTcpUpstreamFactory_StartRequest indeterminate async_resolve StartConnect address =
     Callback no_error None"
  by (simp add: DirectTcpUpstreamFactory_StartRequest_def)

theorem DirectTcpUpstreamFactory_unknown_type_witness:
  "type (FromAsioEndpoint \<lparr>endpoint_address = address_other, endpoint_port = 0\<rparr>) = 0xff \<and>
   DirectTcpUpstreamFactory_StartRequest (\<lambda>i. 0) (\<lambda>h p. (no_error, []))
     (\<lambda>e. (no_error, Some (0::nat)))
     (FromAsioEndpoint \<lparr>endpoint_address = address_other, endpoint_port = 0\<rparr>) =
     Callback no_error None \<and>
   \<not> is_error no_error \<and>
   no_error \<noteq> make_error_code kAddressTypeNotSupported"
  using DirectTcpUpstreamFactory_unknown_type
    [of "FromAsioEndpoint \<lparr>endpoint_address = address_other, endpoint_port = 0\<rparr>"
        "\<lambda>i. 0" "\<lambda>h p. (no_error, [])" "\<lambda>e. (no_error, Some (0::nat))"]
  by (simp add: FromAsioEndpoint_def Address_default_def kIPv4_def kIPv6_def kDomainName_def
        is_error_def no_error_def make_error_code_def kAddressTypeNotSupported_def)

section \<open>The transport on plain TCP\<close>

text \<open>
  C8, as the specification states it, fails: the first close of an open transport
  completes without an error and leaves the socket closed; the second close of that
  transport completes with the error \<^verbatim>\<open>bad_descriptor\<close>, which \<^verbatim>\<open>shutdown\<close> reports on
  a socket that is not open and which is handed to the close callback.
\<close>

theorem second_close_counterexample:
  "TcpTransportImpl_StartClose \<lparr>shutdown_answer = no_error, close_answer = no_error\<rparr>
     \<lparr>socket = \<lparr>is_open = True, options_set = [no_delay True]\<rparr>\<rparr> =
     Returned (no_error, \<lparr>socket = \<lparr>is_open = False, options_set = [no_delay True]\<rparr>\<rparr>) \<and>
   TcpTransportImpl_StartClose \<lparr>shutdown_answer = no_error, close_answer = no_error\<rparr>
     \<lparr>socket = \<lparr>is_open = False, options_set = [no_delay True]\<rparr>\<rparr> =
     Returned (bad_descriptor, \<lparr>socket = \<lparr>is_open = False, options_set = [no_delay True]\<rparr>\<rparr>) \<and>
   is_error bad_descriptor"
  by (simp add: TcpTransportImpl_StartClose_def socket_shutdown_def socket_close_ec_def
        socket_close_def is_error_def no_error_def bad_descriptor_def)

lemma StartClose_closes:
  "TcpTransportImpl_StartClose os transport = Returned (e, transport') \<Longrightarrow>
     \<not> is_open (socket transport')"
  by (auto simp: TcpTransportImpl_StartClose_def socket_shutdown_def socket_close_ec_def
        socket_close_def Let_def split: if_splits asio_result.splits prod.splits)

lemma StartClose_on_closed:
  "\<not> is_open (socket transport) \<Longrightarrow>
     TcpTransportImpl_StartClose os transport = Returned (bad_descriptor, transport)"
  by (simp add: TcpTransportImpl_StartClose_def socket_shutdown_def socket_close_ec_def
        socket_close_def is_error_def no_error_def bad_descriptor_def)

text \<open>
  C8, amended: closing a TCP transport a second time is safe, no exception leaves the
  call and the socket stays closed, and the close callback is invoked with the error
  \<^verbatim>\<open>bad_descriptor\<close>, whatever the operating system answered to the first close.
\<close>

theorem second_close_bad_descriptor:
  "TcpTransportImpl_StartClose os transport = Returned (e, transport') \<Longrightarrow>
     TcpTransportImpl_StartClose os' transport' = Returned (bad_descriptor, transport') \<and>
     \<not> is_open (socket transport') \<and> is_error bad_descriptor"
  using StartClose_closes [of os transport e transport'] StartClose_on_closed [of transport' os']
  by (simp add: is_error_def bad_descriptor_def)

theorem second_close_bad_descriptor_witness:
  "TcpTransportImpl_StartClose \<lparr>shutdown_answer = no_error, close_answer = no_error\<rparr>
     \<lparr>socket = \<lparr>is_open = True, options_set = []\<rparr>\<rparr> =
     Returned (no_error, \<lparr>socket = \<lparr>is_open = False, options_set = []\<rparr>\<rparr>) \<and>
   TcpTransportImpl_StartClose \<lparr>shutdown_answer = no_error, close_answer = no_error\<rparr>
     \<lparr>socket = \<lparr>is_open = False, options_set = []\<rparr>\<rparr> =
     Returned (bad_descriptor, \<lparr>socket = \<lparr>is_open = False, options_set = []\<rparr>\<rparr>)"
proof -
  have first: "TcpTransportImpl_StartClose \<lparr>shutdown_answer = no_error, close_answer = no_error\<rparr>
     \<lparr>socket = \<lparr>is_open = True, options_set = []\<rparr>\<rparr> =
     Returned (no_error, \<lparr>socket = \<lparr>is_open = False, options_set = []\<rparr>\<rparr>)"
    by (simp add: TcpTransportImpl_StartClose_def socket_shutdown_def socket_close_ec_def
        is_error_def no_error_def)
  from second_close_bad_descriptor [OF first] first show ?thesis by simp
qed

text \<open>
  What the factory does set: both options on the listener, and TCP\_NODELAY on the
  socket of every connect of \<^verbatim>\<open>StartConnect\<close> that completes without an error, before
  the transport is handed to the callback. The synchronous connect of the TLS factory
  sets TCP\_NODELAY too on the socket of every transport it returns.
\<close>

lemma StartAccept_sets_listener_options:
  "acceptor_options_set (fst (TcpTransportFactoryImpl_StartAccept endpoint callback completions)) =
     [no_delay True, reuse_address True]"
  by (simp add: TcpTransportFactoryImpl_StartAccept_def acceptor_set_option_def Let_def)

lemma StartConnect_sets_no_delay:
  "\<not> is_error e \<Longrightarrow>
     TcpTransportFactoryImpl_StartConnect os endpoint e =
       Returned (e, Some \<lparr>socket = \<lparr>is_open = True, options_set = [no_delay True]\<rparr>\<rparr>)"
  by (simp add: TcpTransportFactoryImpl_StartConnect_def NewTransport_def socket_set_option_def)

lemma Ssl_TryConnect_sets_no_delay:
  "SslTransportFactoryImpl_TryConnect connect_ec handshake_ec = (Some transport, e) \<Longrightarrow>
     no_delay True \<in> set (options_set (lowest_layer transport))"
  by (auto simp: SslTransportFactoryImpl_TryConnect_def socket_set_option_def Let_def
        split: if_splits)

text \<open>
  C7 fails in the code. \<^verbatim>\<open>TcpTransportFactoryImpl::TryConnect\<close> returns the transport of
  a connect that succeeded with an open socket on which the factory has set no option:
  this connected socket is left without TCP\_NODELAY.
\<close>

theorem TryConnect_leaves_no_delay_unset:
  "TcpTransportFactoryImpl_TryConnect no_error =
     (\<lparr>socket = \<lparr>is_open = True, options_set = []\<rparr>\<rparr>, no_error) \<and>
   \<not> is_error no_error \<and>
   no_delay True \<notin> set (options_set (socket (fst (TcpTransportFactoryImpl_TryConnect no_error))))"
  by (simp add: TcpTransportFactoryImpl_TryConnect_def NewTransport_def is_error_def
        no_error_def)

end
